theory Spec2Isabelle
  imports Complex_Main
begin

section \<open>The notebook's numeric tools\<close>

text \<open>
  The notebook \<^verbatim>\<open>ai/integrations/autogen/autogen_example.ipynb\<close> defines two
  Python functions, \<^verbatim>\<open>calculate_vpd\<close> and \<^verbatim>\<open>fahrenheit_to_celsius\<close>, and
  registers them as tools. Both take and return Python floats.

  A finite Python float is modelled as a real number: rounding is not modelled, and
  neither are the infinities and NaN that float arithmetic on very large values can
  produce. The exceptions that the operations of the two functions raise are modelled,
  as values of a sum type:
  \<^item> \<^verbatim>\<open>x / y\<close> on floats raises \<^verbatim>\<open>ZeroDivisionError\<close> when \<^verbatim>\<open>y\<close> is zero;
  \<^item> \<^verbatim>\<open>math.exp(x)\<close> raises \<^verbatim>\<open>OverflowError\<close> (math range error) when the result
    is too large for a double, that is, larger than the largest finite double
    \<open>(2^53 - 1) * 2^971\<close>.
  Addition, subtraction and multiplication of floats raise nothing.
\<close>

datatype py_error = ZeroDivisionError | OverflowError

definition DBL_MAX :: real where
  "DBL_MAX = (2 ^ 53 - 1) * 2 ^ 971"

definition py_truediv :: "real \<Rightarrow> real \<Rightarrow> py_error + real" where
  "py_truediv x y = (if y = 0 then Inl ZeroDivisionError else Inr (x / y))"

definition math_exp :: "real \<Rightarrow> py_error + real" where
  "math_exp x = (if DBL_MAX < exp x then Inl OverflowError else Inr (exp x))"

text \<open>
  \<^verbatim>\<open>
  def calculate_vpd(temperature_c: float, dew_point_c: float) -> float:
      import math
      a = 17.625
      b = 243.04
      e_s = 6.1094 * math.exp((a * temperature_c) / (b + temperature_c))
      e_a = 6.1094 * math.exp((a * dew_point_c) / (b + dew_point_c))
      vpd = e_s - e_a
      return vpd
  \<close>
  The statements run in order, so an exception in the computation of \<^verbatim>\<open>e_s\<close> wins
  over one in the computation of \<^verbatim>\<open>e_a\<close>.
\<close>

definition calculate_vpd :: "real \<Rightarrow> real \<Rightarrow> py_error + real" where
  "calculate_vpd temperature_c dew_point_c =
     (let a = 17.625; b = 243.04 in
      case py_truediv (a * temperature_c) (b + temperature_c) of
        Inl err \<Rightarrow> Inl err
      | Inr q_s \<Rightarrow>
      (case math_exp q_s of
        Inl err \<Rightarrow> Inl err
      | Inr x_s \<Rightarrow>
      (let e_s = 6.1094 * x_s in
       case py_truediv (a * dew_point_c) (b + dew_point_c) of
        Inl err \<Rightarrow> Inl err
      | Inr q_a \<Rightarrow>
      (case math_exp q_a of
        Inl err \<Rightarrow> Inl err
      | Inr x_a \<Rightarrow>
      (let e_a = 6.1094 * x_a;
           vpd = e_s - e_a
       in Inr vpd)))))"


subsection \<open>The specification's formulas\<close>

text \<open>
  The saturation vapour pressure of the Magnus formula as the specification words it:
  scale coefficient 6.1094 hPa, numerator coefficient 17.625, denominator offset 243.04.
\<close>

definition magnus_spec :: "real \<Rightarrow> real" where
  "magnus_spec t = 6.1094 * exp (17.625 * t / (243.04 + t))"


section \<open>Auxiliary facts\<close>

subsection \<open>The exponent of the Magnus formula\<close>

text \<open>
  Above the pole \<open>- 243.04\<close> the exponent \<open>17.625 * t / (243.04 + t)\<close> stays below
  17.625 and grows with \<open>t\<close>.
\<close>

lemma magnus_exponent_upper:
  assumes "- 243.04 < (t::real)"
  shows "17.625 * t / (243.04 + t) < 17.625"
proof -
  have pos: "0 < 243.04 + t" using assms by simp
  have "17.625 * t < 17.625 * (243.04 + t)" by simp
  then show ?thesis using pos by (simp add: pos_divide_less_eq)
qed



subsection \<open>The range of \<open>math.exp\<close>\<close>

lemma exp_in_range:
  assumes "(x::real) \<le> 100"
  shows "exp x \<le> DBL_MAX"
proof -
  have "exp x \<le> exp (of_nat 100 * 1)" using assms by simp
  also have "\<dots> = exp 1 ^ 100" by (rule exp_of_nat_mult)
  also have "\<dots> \<le> (3::real) ^ 100" by (rule power_mono) (simp_all add: exp_le)
  also have "\<dots> \<le> DBL_MAX" by (simp add: DBL_MAX_def)
  finally show ?thesis .
qed


lemma physical_no_overflow:
  assumes "- 243.04 < (t::real)"
  shows "exp (17.625 * t / (243.04 + t)) \<le> DBL_MAX"
  using magnus_exponent_upper [OF assms] by (intro exp_in_range) simp

subsection \<open>Outcomes of \<open>calculate_vpd\<close>\<close>

lemma calculate_vpd_eq:
  assumes "243.04 + t \<noteq> 0" and "243.04 + d \<noteq> 0"
    and "exp (17.625 * t / (243.04 + t)) \<le> DBL_MAX"
    and "exp (17.625 * d / (243.04 + d)) \<le> DBL_MAX"
  shows "calculate_vpd t d = Inr (magnus_spec t - magnus_spec d)"
  using assms
  by (simp add: calculate_vpd_def py_truediv_def math_exp_def magnus_spec_def Let_def
      not_less [symmetric])

lemma calculate_vpd_physical:
  assumes "- 243.04 < t" and "- 243.04 < d"
  shows "calculate_vpd t d = Inr (magnus_spec t - magnus_spec d)"
proof (rule calculate_vpd_eq)
  show "243.04 + t \<noteq> 0" and "243.04 + d \<noteq> 0" using assms by simp_all
  show "exp (17.625 * t / (243.04 + t)) \<le> DBL_MAX"
    using assms(1) by (rule physical_no_overflow)
  show "exp (17.625 * d / (243.04 + d)) \<le> DBL_MAX"
    using assms(2) by (rule physical_no_overflow)
qed




subsection \<open>Taylor bounds on the exponential\<close>

text \<open>
  The partial sums of the exponential series bound \<open>exp x\<close> from below for \<open>x \<ge> 0\<close>;
  with the Lagrange remainder, whose factor \<open>exp t\<close> is at most \<open>exp 2 \<le> 9\<close>, they
  bound it from above on \<open>[0, 2]\<close>.
\<close>

lemma exp_taylor_lower:
  fixes x :: real
  assumes "0 \<le> x"
  shows "(\<Sum>m<n. x ^ m / fact m) \<le> exp x"
proof -
  obtain t where "exp x = (\<Sum>m<n. x ^ m / fact m) + (exp t / fact n) * x ^ n"
    using Maclaurin_exp_le [of x n] by blast
  moreover have "0 \<le> (exp t / fact n) * x ^ n" using assms by simp
  ultimately show ?thesis by simp
qed

lemma exp_taylor_upper:
  fixes x :: real
  assumes "0 \<le> x" and "x \<le> 2"
  shows "exp x \<le> (\<Sum>m<n. x ^ m / fact m) + 9 * x ^ n / fact n"
proof -
  obtain t where t: "\<bar>t\<bar> \<le> \<bar>x\<bar>"
    and eq: "exp x = (\<Sum>m<n. x ^ m / fact m) + (exp t / fact n) * x ^ n"
    using Maclaurin_exp_le [of x n] by blast
  have "t \<le> 2" using t assms by simp
  then have "exp t \<le> exp (of_nat 2 * 1)" by simp
  also have "\<dots> = exp 1 ^ 2" by (rule exp_of_nat_mult)
  also have "\<dots> \<le> (3::real) ^ 2" by (rule power_mono) (simp_all add: exp_le)
  finally have "exp t \<le> 9" by simp
  then have "exp t * x ^ n \<le> 9 * x ^ n" using assms(1) by (simp add: mult_right_mono)
  then have "(exp t / fact n) * x ^ n \<le> 9 * x ^ n / fact n"
    by (simp add: divide_right_mono)
  with eq show ?thesis by simp
qed

text \<open>Twelve terms give the two vapour pressures of the scenario to four decimals.\<close>

lemma magnus_spec_25_lower: "31.61733 \<le> magnus_spec 25"
proof -
  have "31.61733 / 6.1094 \<le> (\<Sum>m<12. (1.643877::real) ^ m / fact m)"
    by (simp add: lessThan_nat_numeral lessThan_Suc fact_numeral power_divide)
  also have "\<dots> \<le> exp 1.643877" by (rule exp_taylor_lower) simp
  also have "\<dots> \<le> exp (17.625 * 25 / (243.04 + 25))" by simp
  finally show ?thesis by (simp add: magnus_spec_def)
qed

lemma magnus_spec_25_upper: "magnus_spec 25 \<le> 31.61741"
proof -
  have "exp (17.625 * 25 / (243.04 + 25)) \<le> exp (1.643878::real)" by simp
  also have "\<dots> \<le> (\<Sum>m<12. (1.643878::real) ^ m / fact m) + 9 * 1.643878 ^ 12 / fact 12"
    by (rule exp_taylor_upper) simp_all
  also have "\<dots> \<le> 31.61741 / 6.1094"
    by (simp add: lessThan_nat_numeral lessThan_Suc fact_numeral power_divide)
  finally show ?thesis by (simp add: magnus_spec_def)
qed

lemma magnus_spec_20_lower: "23.33439 \<le> magnus_spec 20"
proof -
  have "23.33439 / 6.1094 \<le> (\<Sum>m<12. (1.340100::real) ^ m / fact m)"
    by (simp add: lessThan_nat_numeral lessThan_Suc fact_numeral power_divide)
  also have "\<dots> \<le> exp 1.340100" by (rule exp_taylor_lower) simp
  also have "\<dots> \<le> exp (17.625 * 20 / (243.04 + 20))" by simp
  finally show ?thesis by (simp add: magnus_spec_def)
qed

lemma magnus_spec_20_upper: "magnus_spec 20 \<le> 23.33443"
proof -
  have "exp (17.625 * 20 / (243.04 + 20)) \<le> exp (1.340101::real)" by simp
  also have "\<dots> \<le> (\<Sum>m<12. (1.340101::real) ^ m / fact m) + 9 * 1.340101 ^ 12 / fact 12"
    by (rule exp_taylor_upper) simp_all
  also have "\<dots> \<le> 23.33443 / 6.1094"
    by (simp add: lessThan_nat_numeral lessThan_Suc fact_numeral power_divide)
  finally show ?thesis by (simp add: magnus_spec_def)
qed

section \<open>Fahrenheit to Celsius\<close>



section \<open>Vapour pressure deficit\<close>



















text \<open>
  Claim C3, as stated: \<open>calculate_vpd 25 20\<close> is approximately \<open>0.88\<close> hPa. The function
  returns the difference of the Magnus vapour pressures at 25 and 20 degrees, which is
  more than 7 hPa away from \<open>0.88\<close>.
\<close>

theorem calculate_vpd_25_20_counterexample:
  "calculate_vpd 25 20 = Inr (magnus_spec 25 - magnus_spec 20)
   \<and> 7 < \<bar>(magnus_spec 25 - magnus_spec 20) - 0.88\<bar>"
proof -
  have "calculate_vpd 25 20 = Inr (magnus_spec 25 - magnus_spec 20)"
    by (rule calculate_vpd_physical) simp_all
  moreover have "8 \<le> magnus_spec 25 - magnus_spec 20"
    using magnus_spec_25_lower magnus_spec_20_upper by simp
  then have "7 < \<bar>(magnus_spec 25 - magnus_spec 20) - 0.88\<bar>"
    by simp
  ultimately show ?thesis by simp
qed

text \<open>
  Claim C3, amended: \<open>calculate_vpd 25 20\<close> returns approximately \<open>8.28\<close> hPa; the
  value lies within \<open>0.001\<close> of \<open>8.283\<close>.
\<close>

theorem calculate_vpd_25_20:
  "\<exists>v. calculate_vpd 25 20 = Inr v \<and> \<bar>v - 8.283\<bar> \<le> 0.001"
proof -
  have "calculate_vpd 25 20 = Inr (magnus_spec 25 - magnus_spec 20)"
    by (rule calculate_vpd_physical) simp_all
  moreover have "\<bar>(magnus_spec 25 - magnus_spec 20) - 8.283\<bar> \<le> 0.001"
  proof (rule abs_leI)
    show "magnus_spec 25 - magnus_spec 20 - 8.283 \<le> 0.001"
      using magnus_spec_25_upper magnus_spec_20_lower by simp
    show "- (magnus_spec 25 - magnus_spec 20 - 8.283) \<le> 0.001"
      using magnus_spec_25_lower magnus_spec_20_upper by simp
  qed
  ultimately show ?thesis by blast
qed

end
